theory Spec2Isabelle
  imports Main "HOL-Library.Sublist"
begin

section \<open>Data model (types.ts and the link contract of the RPC client)\<close>

text \<open>
  The package routes operations of an RPC client through chains of links. The types
  below follow \<^verbatim>\<open>types.ts\<close> and the parts of the client's link contract that
  \<^verbatim>\<open>switch-link.ts\<close> and \<^verbatim>\<open>endpoint-router-link.ts\<close> read.

  An \<^verbatim>\<open>Operation\<close> carries an id, a type, a dotted path, an input and a context. The
  cancellation signal is not read by either router and is left out.
\<close>

datatype OperationType = Query | Mutation | Subscription

record ('i, 'c) Operation =
  op_id :: int
  op_type :: OperationType
  op_path :: string
  op_input :: 'i
  op_context :: 'c

text \<open>
  \<^verbatim>\<open>LinkOrLinks\<close> is a link or an array of links. A link is a function object, which
  JavaScript compares by identity and which is never an array; it is a value of the
  type parameter \<open>'l\<close>, and calling it with the runtime is the collaborator
  \<open>initialize\<close> below.
\<close>

datatype 'l LinkOrLinks = Link 'l | Links "'l list"

record ('i, 'c) SwitchLinkSelectorContext =
  sel_path :: string
  sel_type :: OperationType
  sel_ctx :: 'c
  sel_op :: "('i, 'c) Operation"

text \<open>
  A JavaScript object used as a dictionary is the list of its own enumerable string
  keyed properties, in the order \<^verbatim>\<open>Object.keys\<close> gives them. Reading an own property
  is \<open>map_of\<close> (a read under any other key goes on to the prototype, see \<open>property_read\<close>
  below); an object has every key once, which theorems that depend on it assume as
  \<open>distinct (map fst \<dots>)\<close>.
\<close>

record ('i, 'c, 'l) SwitchLinkOptions =
  select :: "('i, 'c) SwitchLinkSelectorContext \<Rightarrow> string"
  cases :: "(string \<times> 'l LinkOrLinks) list"

text \<open>
  What the expression \<^verbatim>\<open>routerToEndpoint[routerName] ?? defaultEndpoint\<close> can evaluate
  to. A property read on an object follows the prototype chain, so besides a string of
  the configuration it can give a member that the object inherits from
  \<^verbatim>\<open>Object.prototype\<close> (a function such as \<^verbatim>\<open>toString\<close>, or the prototype itself for
  \<^verbatim>\<open>__proto__\<close>). \<open>Inherited name\<close> is that member: it is not a string, it is truthy, and
  two reads of the same name give the same object, which is how a \<^verbatim>\<open>Map\<close> compares
  its keys. The declared type of an endpoint is \<^verbatim>\<open>string\<close>, but nothing checks it at run
  time, so the cache key and the argument of the link factory are values of this type.
\<close>

datatype js_value = Str string | Inherited string

record ('l, 'o) EndpointRouterLinkOptions =
  routerToEndpoint :: "(string \<times> string) list"
  defaultEndpoint :: "string option"
  strict :: "bool option"
  linkFactory :: "(js_value \<Rightarrow> 'l LinkOrLinks) option"
  linkOptions :: "(string \<times> 'o) list option"

text \<open>
  What an observer of a result stream receives: values, one error, one completion.
  A routing error is built by \<^verbatim>\<open>TRPCClientError.from(new Error(message))\<close>, which keeps
  the message.
\<close>

datatype TRPCClientError = TRPCClientError (message: string)

datatype 'v notification = Next 'v | Error TRPCClientError | Complete

text \<open>An exception thrown synchronously: \<^verbatim>\<open>throw new Error(message)\<close>.\<close>

datatype JsError = JsError (error_message: string)

text \<open>
  The collaborators the routers call and do not define. \<open>initialize l r\<close> is the call
  \<^verbatim>\<open>link(runtime)\<close>, giving the operation handler of type \<open>'h\<close>. \<open>createChain op links\<close>
  is the sequence of notifications that \<^verbatim>\<open>createChain({ op, links })\<close> pushes to the
  observer subscribed to it; the chain executor is a parameter, so every theorem below
  holds for any executor. \<open>httpBatchLink url options\<close> is the default transport link
  for \<^verbatim>\<open>{ url, ...linkOptions }\<close>. The collaborators are taken to return: a callback
  that throws is outside the routers' own code.
\<close>

record ('l, 'r, 'h, 'i, 'c, 'v, 'o) collaborators =
  initialize :: "'l \<Rightarrow> 'r \<Rightarrow> 'h"
  createChain :: "('i, 'c) Operation \<Rightarrow> 'h list \<Rightarrow> 'v notification list"
  httpBatchLink :: "js_value \<Rightarrow> (string \<times> 'o) list \<Rightarrow> 'l"

text \<open>
  Every call a router makes to a collaborator is appended to a log, so that the
  number and the order of link initialisations, factory calls and chain executions
  can be stated.
\<close>

datatype ('l, 'r, 'h, 'i, 'c) call =
    LinkCall 'l 'r
  | CreateLinkCall js_value
  | CreateChainCall "('i, 'c) Operation" "'h list"

section \<open>JavaScript library functions used by the routers\<close>

text \<open>
  \<^verbatim>\<open>Map\<close>: an insertion ordered dictionary. \<^verbatim>\<open>set\<close> on a key that is present replaces
  the value in place, otherwise it appends.
\<close>

type_synonym ('k, 'v) JsMap = "('k \<times> 'v) list"

definition Map_get :: "'k \<Rightarrow> ('k, 'v) JsMap \<Rightarrow> 'v option" where
  "Map_get k m = map_of m k"

fun Map_set :: "'k \<Rightarrow> 'v \<Rightarrow> ('k, 'v) JsMap \<Rightarrow> ('k, 'v) JsMap" where
  "Map_set k v [] = [(k, v)]"
| "Map_set k v ((k', v') # m) =
     (if k' = k then (k, v) # m else (k', v') # Map_set k v m)"

definition Map_keys :: "('k, 'v) JsMap \<Rightarrow> 'k list" where
  "Map_keys m = map fst m"

text \<open>
  \<^verbatim>\<open>String.prototype.split\<close> with a one character separator: the pieces between the
  separators; the empty string gives one empty piece.
\<close>

fun split :: "char \<Rightarrow> string \<Rightarrow> string list" where
  "split sep [] = [[]]"
| "split sep (c # cs) =
     (if c = sep then [] # split sep cs
      else (case split sep cs of
              [] \<Rightarrow> [[c]]
            | piece # pieces \<Rightarrow> (c # piece) # pieces))"

text \<open>\<^verbatim>\<open>Array.prototype.join\<close> on an array of strings.\<close>

fun join :: "string \<Rightarrow> string list \<Rightarrow> string" where
  "join sep [] = []"
| "join sep [x] = x"
| "join sep (x # y # ys) = x @ sep @ join sep (y # ys)"

text \<open>The double quote character of the message templates.\<close>

abbreviation (input) dq :: string where
  "dq \<equiv> [CHR 0x22]"

section \<open>The link normalizer (asArray, the same text in both router files)\<close>

fun asArray :: "'l LinkOrLinks \<Rightarrow> 'l list" where
  "asArray (Links value) = value"
| "asArray (Link value) = [value]"

section \<open>switchLink (switch-link.ts)\<close>

definition caseKeys :: "('i, 'c, 'l) SwitchLinkOptions \<Rightarrow> string list" where
  "caseKeys opts = map fst (cases opts)"

text \<open>
  The loop of the closure \<^verbatim>\<open>(runtime) => { ... }\<close>: for each key, read the case,
  normalise it, call every link with the runtime in order and store the handlers
  under the key. A key whose property read gives \<^verbatim>\<open>undefined\<close> would make
  \<^verbatim>\<open>asArray\<close> wrap it and the call \<^verbatim>\<open>link(runtime)\<close> throw a TypeError.
\<close>

fun switchLink_loop ::
  "('l, 'r, 'h, 'i, 'c, 'v, 'o) collaborators \<Rightarrow> ('i, 'c, 'l) SwitchLinkOptions \<Rightarrow> 'r \<Rightarrow>
   string list \<Rightarrow> (string, 'h list) JsMap \<Rightarrow> ('l, 'r, 'h, 'i, 'c) call list \<Rightarrow>
   JsError + ((string, 'h list) JsMap \<times> ('l, 'r, 'h, 'i, 'c) call list)" where
  "switchLink_loop env opts runtime [] initializedChains calls =
     Inr (initializedChains, calls)"
| "switchLink_loop env opts runtime (key # keys) initializedChains calls =
     (case map_of (cases opts) key of
        None \<Rightarrow> Inl (JsError ''TypeError: link is not a function'')
      | Some linksOrLink \<Rightarrow>
          (let links = asArray linksOrLink;
               initializedLinks = map (\<lambda>link. initialize env link runtime) links
           in switchLink_loop env opts runtime keys
                (Map_set key initializedLinks initializedChains)
                (calls @ map (\<lambda>link. LinkCall link runtime) links)))"

text \<open>
  \<open>switchLink_runtime\<close> is the closure \<^verbatim>\<open>(runtime) => { ... }\<close> up to its
  \<^verbatim>\<open>return\<close>: it starts from an empty map and gives the populated
  \<^verbatim>\<open>initializedChains\<close>, which the handler it returns captures.
\<close>

definition switchLink_runtime ::
  "('l, 'r, 'h, 'i, 'c, 'v, 'o) collaborators \<Rightarrow> ('i, 'c, 'l) SwitchLinkOptions \<Rightarrow> 'r \<Rightarrow>
   ('l, 'r, 'h, 'i, 'c) call list \<Rightarrow>
   JsError + ((string, 'h list) JsMap \<times> ('l, 'r, 'h, 'i, 'c) call list)" where
  "switchLink_runtime env opts runtime calls =
     switchLink_loop env opts runtime (caseKeys opts) [] calls"

text \<open>
  \<open>switchLink_subscribe\<close> is the handler \<^verbatim>\<open>(props) => observable((observer) => ...)\<close>
  applied to an operation and subscribed to: the notifications the observer receives
  and the log of calls. The observable is cold, so nothing runs before the
  subscription. On a hit the observer itself is subscribed to the chain, so it
  receives the chain's notifications.
\<close>

definition switchLink_subscribe ::
  "('l, 'r, 'h, 'i, 'c, 'v, 'o) collaborators \<Rightarrow> ('i, 'c, 'l) SwitchLinkOptions \<Rightarrow>
   (string, 'h list) JsMap \<Rightarrow> ('i, 'c) Operation \<Rightarrow> ('l, 'r, 'h, 'i, 'c) call list \<Rightarrow>
   'v notification list \<times> ('l, 'r, 'h, 'i, 'c) call list" where
  "switchLink_subscribe env opts initializedChains op calls =
     (let selectorContext =
            \<lparr>sel_path = op_path op, sel_type = op_type op,
             sel_ctx = op_context op, sel_op = op\<rparr>;
          selectedKey = select opts selectorContext
      in case Map_get selectedKey initializedChains of
           None \<Rightarrow>
             (let validKeys = join '', '' (Map_keys initializedChains)
              in ([Error (TRPCClientError
                     (''switchLink: selector returned unknown key '' @ dq @ selectedKey @ dq
                      @ ''. '' @ ''Valid keys are: '' @ validKeys))],
                  calls))
         | Some links \<Rightarrow> (createChain env op links, calls @ [CreateChainCall op links]))"

text \<open>
  \<open>switchLink\<close> itself: the check at construction, then the link. The link is the
  function from the runtime (and the log so far) to the populated map.
\<close>

definition switchLink ::
  "('l, 'r, 'h, 'i, 'c, 'v, 'o) collaborators \<Rightarrow> ('i, 'c, 'l) SwitchLinkOptions \<Rightarrow>
   JsError +
   ('r \<Rightarrow> ('l, 'r, 'h, 'i, 'c) call list \<Rightarrow>
      JsError + ((string, 'h list) JsMap \<times> ('l, 'r, 'h, 'i, 'c) call list))" where
  "switchLink env opts =
     (if length (caseKeys opts) = 0
      then Inl (JsError ''switchLink: cases object must have at least one entry'')
      else Inr (switchLink_runtime env opts))"

section \<open>endpointRouterLink (endpoint-router-link.ts)\<close>

text \<open>The destructuring defaults: \<^verbatim>\<open>strict = false\<close>, \<^verbatim>\<open>linkOptions = {}\<close>.\<close>

definition strict_of :: "('l, 'o) EndpointRouterLinkOptions \<Rightarrow> bool" where
  "strict_of opts = (case strict opts of None \<Rightarrow> False | Some b \<Rightarrow> b)"

definition linkOptions_of :: "('l, 'o) EndpointRouterLinkOptions \<Rightarrow> (string \<times> 'o) list" where
  "linkOptions_of opts = (case linkOptions opts of None \<Rightarrow> [] | Some options \<Rightarrow> options)"

definition createLink ::
  "('l, 'r, 'h, 'i, 'c, 'v, 'o) collaborators \<Rightarrow> ('l, 'o) EndpointRouterLinkOptions \<Rightarrow>
   js_value \<Rightarrow> 'l LinkOrLinks" where
  "createLink env opts =
     (case linkFactory opts of
        Some factory \<Rightarrow> factory
      | None \<Rightarrow> (\<lambda>endpoint. Link (httpBatchLink env endpoint (linkOptions_of opts))))"

text \<open>
  The state of one initialised router: the closure variable \<^verbatim>\<open>linkCache\<close> and the
  log of calls. \<open>new_instance\<close> is the state right after \<^verbatim>\<open>link(runtime)\<close>, which
  only creates the empty map.
\<close>

record ('l, 'r, 'h, 'i, 'c) router_state =
  linkCache :: "(js_value, 'h list) JsMap"
  calls :: "('l, 'r, 'h, 'i, 'c) call list"

definition new_instance :: "('l, 'r, 'h, 'i, 'c) router_state" where
  "new_instance = \<lparr>linkCache = [], calls = []\<rparr>"

definition getInitializedLinks ::
  "('l, 'r, 'h, 'i, 'c, 'v, 'o) collaborators \<Rightarrow> ('l, 'o) EndpointRouterLinkOptions \<Rightarrow> 'r \<Rightarrow>
   js_value \<Rightarrow> ('l, 'r, 'h, 'i, 'c) router_state \<Rightarrow>
   'h list \<times> ('l, 'r, 'h, 'i, 'c) router_state" where
  "getInitializedLinks env opts runtime endpoint st =
     (case Map_get endpoint (linkCache st) of
        Some initializedLinks \<Rightarrow> (initializedLinks, st)
      | None \<Rightarrow>
          (let linksOrLink = createLink env opts endpoint;
               links = asArray linksOrLink;
               initializedLinks = map (\<lambda>link. initialize env link runtime) links
           in (initializedLinks,
               \<lparr>linkCache = Map_set endpoint initializedLinks (linkCache st),
                calls = calls st @ CreateLinkCall endpoint
                          # map (\<lambda>link. LinkCall link runtime) links\<rparr>)))"

definition routerName_of :: "('i, 'c) Operation \<Rightarrow> string" where
  "routerName_of op = hd (split (CHR ''.'') (op_path op))"

text \<open>
  The names of the members of \<^verbatim>\<open>Object.prototype\<close> (ECMAScript, with the legacy
  accessors of its Annex B). The configuration is a plain object, as the object
  literals of the documentation and of the tests are, so these are the properties it
  inherits.
\<close>

definition Object_prototype_keys :: "string list" where
  "Object_prototype_keys =
     [''constructor'', ''hasOwnProperty'', ''isPrototypeOf'', ''propertyIsEnumerable'',
      ''toLocaleString'', ''toString'', ''valueOf'', ''__proto__'',
      ''__defineGetter__'', ''__defineSetter__'', ''__lookupGetter__'', ''__lookupSetter__'']"

text \<open>
  The property read \<^verbatim>\<open>object[key]\<close>: an own property first, then the prototype, else
  \<^verbatim>\<open>undefined\<close>.
\<close>

definition property_read :: "(string \<times> string) list \<Rightarrow> string \<Rightarrow> js_value option" where
  "property_read object key =
     (case map_of object key of
        Some v \<Rightarrow> Some (Str v)
      | None \<Rightarrow> if key \<in> set Object_prototype_keys then Some (Inherited key) else None)"

text \<open>
  \<^verbatim>\<open>routerToEndpoint[routerName] ?? defaultEndpoint\<close>: the default is taken only when
  the property read gives \<^verbatim>\<open>undefined\<close>.
\<close>

definition resolve_endpoint ::
  "('l, 'o) EndpointRouterLinkOptions \<Rightarrow> string \<Rightarrow> js_value option" where
  "resolve_endpoint opts routerName =
     (case property_read (routerToEndpoint opts) routerName of
        Some endpoint \<Rightarrow> Some endpoint
      | None \<Rightarrow> map_option Str (defaultEndpoint opts))"

definition errorMessage_of :: "('l, 'o) EndpointRouterLinkOptions \<Rightarrow> string \<Rightarrow> string" where
  "errorMessage_of opts routerName =
     (let availableMappings = join '', '' (map fst (routerToEndpoint opts))
      in if strict_of opts
         then ''endpointRouterLink: no endpoint mapping for router '' @ dq @ routerName @ dq
              @ '' '' @ ''and no defaultEndpoint provided. ''
              @ ''Available mappings: ''
              @ (if availableMappings = [] then ''(none)'' else availableMappings)
         else ''endpointRouterLink: no endpoint for router '' @ dq @ routerName @ dq
              @ ''. '' @ ''Either add it to routerToEndpoint or provide a defaultEndpoint.'')"

text \<open>
  \<open>endpointRouterLink\<close> is the link applied to the runtime, then to an operation, and
  subscribed to, on the state of the instance. The test \<^verbatim>\<open>!endpoint\<close> holds for
  \<^verbatim>\<open>undefined\<close> and for the empty string, and for no other value; on it the observer
  gets the error and the subscriber function returns.
\<close>

definition endpointRouterLink ::
  "('l, 'r, 'h, 'i, 'c, 'v, 'o) collaborators \<Rightarrow> ('l, 'o) EndpointRouterLinkOptions \<Rightarrow> 'r \<Rightarrow>
   ('i, 'c) Operation \<Rightarrow> ('l, 'r, 'h, 'i, 'c) router_state \<Rightarrow>
   'v notification list \<times> ('l, 'r, 'h, 'i, 'c) router_state" where
  "endpointRouterLink env opts runtime op st =
     (let routerName = routerName_of op;
          endpoint = resolve_endpoint opts routerName;
          failure = ([Error (TRPCClientError (errorMessage_of opts routerName))], st)
      in case endpoint of
           None \<Rightarrow> failure
         | Some url \<Rightarrow>
             if url = Str [] then failure
             else (let (links, st') = getInitializedLinks env opts runtime url st
                   in (createChain env op links,
                       st'\<lparr>calls := calls st' @ [CreateChainCall op links]\<rparr>)))"

definition typedEndpointRouterLink ::
  "('l, 'r, 'h, 'i, 'c, 'v, 'o) collaborators \<Rightarrow> ('l, 'o) EndpointRouterLinkOptions \<Rightarrow> 'r \<Rightarrow>
   ('i, 'c) Operation \<Rightarrow> ('l, 'r, 'h, 'i, 'c) router_state \<Rightarrow>
   'v notification list \<times> ('l, 'r, 'h, 'i, 'c) router_state" where
  "typedEndpointRouterLink env opts = endpointRouterLink env opts"

text \<open>A sequence of operations submitted to one instance, one after the other.\<close>

fun run_operations ::
  "(('i, 'c) Operation \<Rightarrow> ('l, 'r, 'h, 'i, 'c) router_state \<Rightarrow>
      'v notification list \<times> ('l, 'r, 'h, 'i, 'c) router_state) \<Rightarrow>
   ('i, 'c) Operation list \<Rightarrow> ('l, 'r, 'h, 'i, 'c) router_state \<Rightarrow>
   'v notification list list \<times> ('l, 'r, 'h, 'i, 'c) router_state" where
  "run_operations handler [] st = ([], st)"
| "run_operations handler (op # ops) st =
     (let (stream, st') = handler op st;
          (streams, st'') = run_operations handler ops st'
      in (stream # streams, st''))"


section \<open>Fixtures of the test suites\<close>

text \<open>
  \<open>createMockOp\<close> is the helper of both test files. \<open>mock_collaborators\<close> stands
  for their mock links: a link is named by a string, its handler is the same name, and
  the chain built from handlers emits one value for each and completes. A mock link
  made for an endpoint is named by \<open>endpoint_name\<close>: the endpoint string, or the name
  of the inherited member.
\<close>

fun endpoint_name :: "js_value \<Rightarrow> string" where
  "endpoint_name (Str url) = url"
| "endpoint_name (Inherited name) = name"

definition createMockOp :: "string \<Rightarrow> 'c \<Rightarrow> (unit, 'c) Operation" where
  "createMockOp path context =
     \<lparr>op_id = 1, op_type = Query, op_path = path, op_input = (), op_context = context\<rparr>"

definition mock_collaborators ::
  "(string, unit, string, unit, 'c, string, unit) collaborators" where
  "mock_collaborators =
     \<lparr>initialize = (\<lambda>link runtime. link),
      createChain = (\<lambda>op links. map Next links @ [Complete]),
      httpBatchLink = (\<lambda>url options. endpoint_name url)\<rparr>"

section \<open>Facts about the library functions\<close>

lemma map_of_Map_set: "map_of (Map_set k v m) = (map_of m)(k \<mapsto> v)"
  by (induction m) (auto simp: fun_eq_iff)


lemma keys_Map_set: "set (Map_keys (Map_set k v m)) = insert k (set (Map_keys m))"
proof -
  have "dom (map_of (Map_set k v m)) = insert k (dom (map_of m))"
    by (simp add: map_of_Map_set)
  then show ?thesis
    by (simp add: Map_keys_def dom_map_of_conv_image_fst)
qed

lemma Map_set_fresh: "k \<notin> set (Map_keys m) \<Longrightarrow> Map_set k v m = m @ [(k, v)]"
  by (induction m) (auto simp: Map_keys_def)

lemma Map_get_None_iff: "Map_get k m = None \<longleftrightarrow> k \<notin> set (Map_keys m)"
  by (simp add: Map_get_def Map_keys_def map_of_eq_None_iff)



lemma switchLink_loop_fresh:
  assumes "distinct keys"
    and "set keys \<inter> set (Map_keys cache) = {}"
    and "\<forall>key \<in> set keys. map_of (cases opts) key \<noteq> None"
  shows "switchLink_loop env opts runtime keys cache log =
           Inr (cache @ map (\<lambda>key. (key, map (\<lambda>link. initialize env link runtime)
                                           (asArray (the (map_of (cases opts) key))))) keys,
                log @ concat (map (\<lambda>key. map (\<lambda>link. LinkCall link runtime)
                                           (asArray (the (map_of (cases opts) key)))) keys))"
  using assms
proof (induction keys arbitrary: cache log)
  case Nil
  then show ?case by simp
next
  case (Cons key keys)
  from Cons.prems obtain v where v: "map_of (cases opts) key = Some v" by auto
  let ?ls = "map (\<lambda>link. initialize env link runtime) (asArray v)"
  have fresh: "key \<notin> set (Map_keys cache)" using Cons.prems by auto
  have set_eq: "Map_set key ?ls cache = cache @ [(key, ?ls)]"
    using fresh by (rule Map_set_fresh)
  have disj: "set keys \<inter> set (Map_keys (Map_set key ?ls cache)) = {}"
    using Cons.prems by (auto simp: keys_Map_set)
  have "switchLink_loop env opts runtime keys (Map_set key ?ls cache)
          (log @ map (\<lambda>link. LinkCall link runtime) (asArray v)) =
        Inr (Map_set key ?ls cache @ map (\<lambda>key. (key, map (\<lambda>link. initialize env link runtime)
                                           (asArray (the (map_of (cases opts) key))))) keys,
             (log @ map (\<lambda>link. LinkCall link runtime) (asArray v)) @
               concat (map (\<lambda>key. map (\<lambda>link. LinkCall link runtime)
                                           (asArray (the (map_of (cases opts) key)))) keys))"
    using Cons.prems disj by (intro Cons.IH) auto
  then show ?case by (simp add: v set_eq Let_def)
qed

lemma map_over_keys:
  assumes "distinct (map fst cs)"
  shows "map (\<lambda>key. g key (the (map_of cs key))) (map fst cs) = map (\<lambda>(key, value). g key value) cs"
proof -
  have "\<And>key value. (key, value) \<in> set cs \<Longrightarrow> map_of cs key = Some value"
    using assms by simp
  then show ?thesis by (auto simp: map_eq_conv)
qed

lemma switchLink_runtime_eq:
  assumes "distinct (caseKeys opts)"
  shows "switchLink_runtime env opts runtime log =
           Inr (map (\<lambda>(key, value). (key, map (\<lambda>link. initialize env link runtime) (asArray value)))
                  (cases opts),
                log @ concat (map (\<lambda>(key, value). map (\<lambda>link. LinkCall link runtime) (asArray value))
                               (cases opts)))"
proof -
  have dom: "\<forall>key \<in> set (caseKeys opts). map_of (cases opts) key \<noteq> None"
    by (auto simp: caseKeys_def map_of_eq_None_iff)
  have A: "switchLink_runtime env opts runtime log =
          Inr ([] @ map (\<lambda>key. (key, map (\<lambda>link. initialize env link runtime)
                                           (asArray (the (map_of (cases opts) key))))) (caseKeys opts),
                log @ concat (map (\<lambda>key. map (\<lambda>link. LinkCall link runtime)
                                           (asArray (the (map_of (cases opts) key)))) (caseKeys opts)))"
    unfolding switchLink_runtime_def
    using assms dom by (intro switchLink_loop_fresh) (auto simp: Map_keys_def)
  have B: "map (\<lambda>key. (key, map (\<lambda>link. initialize env link runtime)
                                           (asArray (the (map_of (cases opts) key))))) (caseKeys opts)
      = map (\<lambda>(key, value). (key, map (\<lambda>link. initialize env link runtime) (asArray value))) (cases opts)"
    unfolding caseKeys_def using assms[unfolded caseKeys_def]
    by (rule map_over_keys[where g = "\<lambda>key value. (key, map (\<lambda>link. initialize env link runtime) (asArray value))"])
  have C: "map (\<lambda>key. map (\<lambda>link. LinkCall link runtime)
                                           (asArray (the (map_of (cases opts) key)))) (caseKeys opts)
      = map (\<lambda>(key, value). map (\<lambda>link. LinkCall link runtime) (asArray value)) (cases opts)"
    unfolding caseKeys_def using assms[unfolded caseKeys_def]
    by (rule map_over_keys[where g = "\<lambda>key value. map (\<lambda>link. LinkCall link runtime) (asArray value)"])
  show ?thesis by (simp only: A B C append_Nil)
qed

section \<open>Construction of the Switch Router\<close>

lemma contains_entry_message:
  "sublist ''cases object must have at least one entry''
      ''switchLink: cases object must have at least one entry''"
proof -
  have "sublist ''cases object must have at least one entry''
          (''switchLink: '' @ ''cases object must have at least one entry'' @ [])"
    by (rule sublist_appendI)
  then show ?thesis by simp
qed

text \<open>
  Claim C6. Constructing a Switch Router succeeds for every cases mapping with at
  least one entry: \<open>switchLink\<close> returns the link. For the empty cases mapping it
  throws at construction, and the message of the error contains
  "cases object must have at least one entry".
\<close>

theorem switchLink_construction:
  "(cases opts \<noteq> [] \<longrightarrow> switchLink env opts = Inr (switchLink_runtime env opts)) \<and>
   (cases opts = [] \<longrightarrow>
      (\<exists>e. switchLink env opts = Inl e \<and>
           sublist ''cases object must have at least one entry'' (error_message e)))"
proof (cases "cases opts = []")
  case True
  then have "switchLink env opts =
      Inl (JsError ''switchLink: cases object must have at least one entry'')"
    by (simp add: switchLink_def caseKeys_def)
  with True show ?thesis
    using contains_entry_message by simp
next
  case False
  then show ?thesis by (simp add: switchLink_def caseKeys_def)
qed

theorem switchLink_construction_witness:
  "(\<exists>link. switchLink (mock_collaborators :: (string, unit, string, unit, unit, string, unit) collaborators)
            \<lparr>select = (\<lambda>c. ''cached''), cases = [(''cached'', Link ''linkFactory'')]\<rparr> = Inr link)
   \<and> (\<exists>e. switchLink (mock_collaborators :: (string, unit, string, unit, unit, string, unit) collaborators)
           \<lparr>select = (\<lambda>c. ''''), cases = []\<rparr> = Inl e \<and>
          sublist ''cases object must have at least one entry'' (error_message e))"
proof -
  have nonempty: "cases \<lparr>select = (\<lambda>c :: (unit, unit) SwitchLinkSelectorContext. ''cached''),
                         cases = [(''cached'', Link ''linkFactory'')]\<rparr> \<noteq> []"
    by simp
  have empty: "cases \<lparr>select = (\<lambda>c :: (unit, unit) SwitchLinkSelectorContext. ''''),
                      cases = ([] :: (string \<times> string LinkOrLinks) list)\<rparr> = []"
    by simp
  from nonempty switchLink_construction [where env = mock_collaborators] have
    "\<exists>link. switchLink (mock_collaborators :: (string, unit, string, unit, unit, string, unit) collaborators)
            \<lparr>select = (\<lambda>c. ''cached''), cases = [(''cached'', Link ''linkFactory'')]\<rparr> = Inr link"
    by blast
  moreover from empty switchLink_construction [where env = mock_collaborators] have
    "\<exists>e. switchLink (mock_collaborators :: (string, unit, string, unit, unit, string, unit) collaborators)
           \<lparr>select = (\<lambda>c. ''''), cases = []\<rparr> = Inl e \<and>
          sublist ''cases object must have at least one entry'' (error_message e)"
    by blast
  ultimately show ?thesis by blast
qed

section \<open>The router name and the endpoint of an operation\<close>






section \<open>The typed variant of the Endpoint Router\<close>

text \<open>
  Claim C9. \<open>typedEndpointRouterLink\<close> applied to a configuration is the link
  \<open>endpointRouterLink\<close> gives for the same configuration, so every sequence of
  operations gets the same streams and leaves the same state.
\<close>

theorem typedEndpointRouterLink_delegates:
  "typedEndpointRouterLink env opts = endpointRouterLink env opts \<and>
   run_operations (typedEndpointRouterLink env opts runtime) ops st =
     run_operations (endpointRouterLink env opts runtime) ops st"
  by (simp add: typedEndpointRouterLink_def)

section \<open>The link normalizer\<close>

text \<open>
  Both routers read a link-or-list only through \<open>asArray\<close>: two configurations whose
  normalised lists are equal give the same router.
\<close>

lemma switchLink_loop_normalized:
  assumes "\<And>key. map_option asArray (map_of (cases opts') key) =
                  map_option asArray (map_of (cases opts) key)"
  shows "switchLink_loop env opts' runtime keys cache log =
         switchLink_loop env opts runtime keys cache log"
proof (induction keys arbitrary: cache log)
  case Nil
  show ?case by simp
next
  case (Cons key keys)
  show ?case
  proof (cases "map_of (cases opts) key")
    case None
    with assms[of key] have "map_of (cases opts') key = None" by simp
    with None show ?thesis by simp
  next
    case (Some v)
    with assms[of key] obtain v' where
      v': "map_of (cases opts') key = Some v'" and same: "asArray v' = asArray v"
      by auto
    show ?thesis by (simp add: Some v' same Cons.IH)
  qed
qed

lemma normalized_cases_lookup:
  assumes "map (\<lambda>(key, value). (key, asArray value)) cs' =
           map (\<lambda>(key, value). (key, asArray value)) cs"
  shows "map_option asArray (map_of cs' key) = map_option asArray (map_of cs key)"
proof -
  have "map_of (map (\<lambda>(key, value). (key, asArray value)) cs') key =
        map_of (map (\<lambda>(key, value). (key, asArray value)) cs) key"
    using assms by simp
  then show ?thesis by (simp add: map_of_map)
qed

lemma normalized_cases_keys:
  assumes "map (\<lambda>(key, value). (key, asArray value)) cs' =
           map (\<lambda>(key, value). (key, asArray value)) cs"
  shows "map fst cs' = map fst cs"
proof -
  have "map fst (map (\<lambda>(key, value). (key, asArray value)) cs') =
        map fst (map (\<lambda>(key, value). (key, asArray value)) cs)"
    using assms by simp
  then show ?thesis by (simp add: case_prod_unfold comp_def)
qed

lemma switchLink_normalized:
  assumes "map (\<lambda>(key, value). (key, asArray value)) (cases opts') =
           map (\<lambda>(key, value). (key, asArray value)) (cases opts)"
  shows "switchLink env opts' = switchLink env opts"
proof -
  have keys: "caseKeys opts' = caseKeys opts"
    unfolding caseKeys_def using assms by (rule normalized_cases_keys)
  have "switchLink_runtime env opts' runtime log = switchLink_runtime env opts runtime log"
    for runtime log
    unfolding switchLink_runtime_def keys
    by (rule switchLink_loop_normalized) (rule normalized_cases_lookup [OF assms])
  then have "switchLink_runtime env opts' = switchLink_runtime env opts"
    by (intro ext)
  then show ?thesis by (simp add: switchLink_def keys)
qed

lemma switchLink_subscribe_select:
  assumes "select opts' = select opts"
  shows "switchLink_subscribe env opts' = switchLink_subscribe env opts"
  by (intro ext) (simp add: switchLink_subscribe_def assms)

lemma endpointRouterLink_normalized:
  assumes "\<And>endpoint. asArray (factory' endpoint) = asArray (factory endpoint)"
  shows "endpointRouterLink env (opts\<lparr>linkFactory := Some factory'\<rparr>) =
         endpointRouterLink env (opts\<lparr>linkFactory := Some factory\<rparr>)"
proof (intro ext)
  fix runtime op st
  have resolve: "resolve_endpoint (opts\<lparr>linkFactory := f\<rparr>) = resolve_endpoint opts" for f
    by (intro ext) (simp add: resolve_endpoint_def split: option.split)
  have endpoint_message: "errorMessage_of (opts\<lparr>linkFactory := f\<rparr>) = errorMessage_of opts" for f
    by (intro ext) (simp add: errorMessage_of_def strict_of_def split: option.split)
  have links: "getInitializedLinks env (opts\<lparr>linkFactory := Some factory'\<rparr>) runtime url st =
               getInitializedLinks env (opts\<lparr>linkFactory := Some factory\<rparr>) runtime url st"
    for url
    by (simp add: getInitializedLinks_def createLink_def assms Let_def split: option.split)
  show "endpointRouterLink env (opts\<lparr>linkFactory := Some factory'\<rparr>) runtime op st =
        endpointRouterLink env (opts\<lparr>linkFactory := Some factory\<rparr>) runtime op st"
    by (simp add: endpointRouterLink_def links resolve endpoint_message Let_def
        split: option.split)
qed

text \<open>
  Claim C8. The link normalizer is a total function without effects: it wraps a lone
  link into a one element list and returns a list as it is, in the same order.
  Consequently two Switch Router configurations with the same selector whose cases
  normalise to the same lists (a bare link against the explicit one element list of
  it, for one) give the same router and the same stream for every operation, and two
  link factories whose results normalise to the same lists give the same Endpoint
  Router.
\<close>

theorem asArray_normalizes:
  "asArray (Link link) = [link] \<and> asArray (Links links) = links \<and>
   (select opts' = select opts \<and>
    map (\<lambda>(key, value). (key, asArray value)) (cases opts') =
      map (\<lambda>(key, value). (key, asArray value)) (cases opts) \<longrightarrow>
    switchLink env opts' = switchLink env opts \<and>
    switchLink_subscribe env opts' = switchLink_subscribe env opts) \<and>
   ((\<forall>endpoint. asArray (factory' endpoint) = asArray (factory endpoint)) \<longrightarrow>
    endpointRouterLink env (eopts\<lparr>linkFactory := Some factory'\<rparr>) =
      endpointRouterLink env (eopts\<lparr>linkFactory := Some factory\<rparr>))"
  using switchLink_normalized [of opts' opts env] switchLink_subscribe_select [of opts' opts env]
    endpointRouterLink_normalized [of factory' factory env eopts]
  by simp

theorem asArray_normalizes_witness:
  "switchLink (mock_collaborators :: (string, unit, string, unit, unit, string, unit) collaborators)
      \<lparr>select = (\<lambda>c. ''target''), cases = [(''target'', Link ''mockLink'')]\<rparr> =
    switchLink mock_collaborators
      \<lparr>select = (\<lambda>c. ''target''), cases = [(''target'', Links [''mockLink''])]\<rparr> \<and>
   endpointRouterLink
      (mock_collaborators :: (string, unit, string, unit, unit, string, unit) collaborators)
      (\<lparr>routerToEndpoint = [(''users'', ''/api/users'')], defaultEndpoint = None,
        strict = None, linkFactory = None, linkOptions = None\<rparr>
        \<lparr>linkFactory := Some (\<lambda>endpoint. Link (endpoint_name endpoint))\<rparr>) =
    endpointRouterLink mock_collaborators
      (\<lparr>routerToEndpoint = [(''users'', ''/api/users'')], defaultEndpoint = None,
        strict = None, linkFactory = None, linkOptions = None\<rparr>
        \<lparr>linkFactory := Some (\<lambda>endpoint. Links [endpoint_name endpoint])\<rparr>)"
proof -
  have same_select:
    "select \<lparr>select = (\<lambda>c :: (unit, unit) SwitchLinkSelectorContext. ''target''),
             cases = [(''target'', Link ''mockLink'')]\<rparr> =
     select \<lparr>select = (\<lambda>c. ''target''), cases = [(''target'', Links [''mockLink''])]\<rparr>"
    by simp
  have same_cases:
    "map (\<lambda>(key, value). (key, asArray value))
       (cases \<lparr>select = (\<lambda>c :: (unit, unit) SwitchLinkSelectorContext. ''target''),
               cases = [(''target'', Link ''mockLink'')]\<rparr>) =
     map (\<lambda>(key, value). (key, asArray value))
       (cases \<lparr>select = (\<lambda>c :: (unit, unit) SwitchLinkSelectorContext. ''target''),
               cases = [(''target'', Links [''mockLink''])]\<rparr>)"
    by simp
  have same_factory:
    "\<forall>endpoint. asArray (Link (endpoint_name endpoint)) = asArray (Links [endpoint_name endpoint])"
    by simp
  from same_select same_cases same_factory
    asArray_normalizes
      [where opts' = "\<lparr>select = (\<lambda>c. ''target''), cases = [(''target'', Link ''mockLink'')]\<rparr>"
         and opts = "\<lparr>select = (\<lambda>c. ''target''), cases = [(''target'', Links [''mockLink''])]\<rparr>"
         and factory' = "\<lambda>endpoint. Link (endpoint_name endpoint)"
         and factory = "\<lambda>endpoint. Links [endpoint_name endpoint]"
         and link = "''mockLink''" and links = "[''mockLink'']"
         and env = "mock_collaborators :: (string, unit, string, unit, unit, string, unit) collaborators"
         and eopts = "\<lparr>routerToEndpoint = [(''users'', ''/api/users'')], defaultEndpoint = None,
        strict = None, linkFactory = None, linkOptions = None\<rparr>"]
  show ?thesis by blast
qed

section \<open>The Switch Router: initialisation and routing\<close>

lemma sublist_join: "key \<in> set keys \<Longrightarrow> sublist key (join sep keys)"
proof (induction sep keys rule: join.induct)
  case (1 sep)
  then show ?case by simp
next
  case (2 sep x)
  then show ?case by simp
next
  case (3 sep x y ys)
  show ?case
  proof (cases "key = x")
    case True
    then show ?thesis by simp
  next
    case False
    with 3 have "sublist key (join sep (y # ys))" by simp
    then obtain ps ss where "join sep (y # ys) = ps @ key @ ss"
      by (auto simp: sublist_def)
    then have "join sep (x # y # ys) = (x @ sep @ ps) @ key @ ss" by simp
    then show ?thesis unfolding sublist_def by blast
  qed
qed

lemma switchLink_subscribe_miss:
  assumes "Map_get (select opts \<lparr>sel_path = op_path op, sel_type = op_type op,
                                 sel_ctx = op_context op, sel_op = op\<rparr>) cache = None"
  shows "switchLink_subscribe env opts cache op log =
           ([Error (TRPCClientError
               (''switchLink: selector returned unknown key '' @ dq
                @ select opts \<lparr>sel_path = op_path op, sel_type = op_type op,
                                 sel_ctx = op_context op, sel_op = op\<rparr>
                @ dq @ ''. Valid keys are: '' @ join '', '' (Map_keys cache)))], log)"
  using assms by (simp add: switchLink_subscribe_def Let_def)

lemma switchLink_subscribe_hit:
  assumes "Map_get (select opts \<lparr>sel_path = op_path op, sel_type = op_type op,
                                 sel_ctx = op_context op, sel_op = op\<rparr>) cache = Some links"
  shows "switchLink_subscribe env opts cache op log =
           (createChain env op links, log @ [CreateChainCall op links])"
  using assms by (simp add: switchLink_subscribe_def Let_def)

lemma switchLink_runtime_cache:
  assumes "distinct (caseKeys opts)"
    and "switchLink_runtime env opts runtime log0 = Inr (cache, log1)"
  shows "cache = map (\<lambda>(key, value). (key, map (\<lambda>link. initialize env link runtime) (asArray value)))
                   (cases opts)"
    and "Map_keys cache = caseKeys opts"
    and "(key, value) \<in> set (cases opts) \<Longrightarrow>
           Map_get key cache = Some (map (\<lambda>link. initialize env link runtime) (asArray value))"
proof -
  show c: "cache = map (\<lambda>(key, value). (key, map (\<lambda>link. initialize env link runtime) (asArray value)))
                   (cases opts)"
    using assms(2) switchLink_runtime_eq [OF assms(1), of env runtime log0] by simp
  show k: "Map_keys cache = caseKeys opts"
    by (simp add: c Map_keys_def caseKeys_def case_prod_unfold comp_def)
  assume kv: "(key, value) \<in> set (cases opts)"
  have "distinct (map fst cache)" using assms(1) k by (simp add: Map_keys_def)
  moreover have "(key, map (\<lambda>link. initialize env link runtime) (asArray value)) \<in> set cache"
    using kv by (force simp: c)
  ultimately show "Map_get key cache = Some (map (\<lambda>link. initialize env link runtime) (asArray value))"
    by (simp add: Map_get_def)
qed

text \<open>
  Claim C4. When the Switch Router is handed the runtime, it materialises every
  declared case once, whether or not the case is ever selected: the chain cache has, in
  the order of the case keys, one entry for each key of the cases mapping, whose value
  is the normalised value of the case with each link initialised with the runtime; the
  calls made are exactly these link initialisations, in order; and no later operation
  initialises a link again.
\<close>

theorem switchLink_eager_initialization:
  assumes "distinct (caseKeys opts)"
  shows "\<exists>cache.
           switchLink_runtime env opts runtime log =
             Inr (cache,
                  log @ concat (map (\<lambda>(key, value). map (\<lambda>link. LinkCall link runtime) (asArray value))
                                  (cases opts))) \<and>
           cache = map (\<lambda>(key, value). (key, map (\<lambda>link. initialize env link runtime) (asArray value)))
                     (cases opts) \<and>
           Map_keys cache = caseKeys opts \<and>
           (\<forall>(key, value) \<in> set (cases opts).
              Map_get key cache = Some (map (\<lambda>link. initialize env link runtime) (asArray value))) \<and>
           (\<forall>op log'. \<exists>rest. snd (switchLink_subscribe env opts cache op log') = log' @ rest \<and>
              (\<forall>link r. LinkCall link r \<notin> set rest))"
proof -
  let ?cache = "map (\<lambda>(key, value). (key, map (\<lambda>link. initialize env link runtime) (asArray value)))
                  (cases opts)"
  let ?log = "log @ concat (map (\<lambda>(key, value). map (\<lambda>link. LinkCall link runtime) (asArray value))
                                  (cases opts))"
  have run: "switchLink_runtime env opts runtime log = Inr (?cache, ?log)"
    using assms by (rule switchLink_runtime_eq)
  have keys: "Map_keys ?cache = caseKeys opts"
    using switchLink_runtime_cache(2) [OF assms run] .
  have entries: "\<forall>(key, value) \<in> set (cases opts).
              Map_get key ?cache = Some (map (\<lambda>link. initialize env link runtime) (asArray value))"
    using switchLink_runtime_cache(3) [OF assms run] by blast
  have later: "\<exists>rest. snd (switchLink_subscribe env opts ?cache op log') = log' @ rest \<and>
              (\<forall>link r. LinkCall link r \<notin> set rest)" for op log'
  proof (cases "Map_get (select opts \<lparr>sel_path = op_path op, sel_type = op_type op,
                                 sel_ctx = op_context op, sel_op = op\<rparr>) ?cache")
    case None
    then have "snd (switchLink_subscribe env opts ?cache op log') = log' @ []"
      by (simp add: switchLink_subscribe_miss)
    then show ?thesis by (intro exI[of _ "[]"]) simp
  next
    case (Some links)
    then have "snd (switchLink_subscribe env opts ?cache op log') = log' @ [CreateChainCall op links]"
      by (simp add: switchLink_subscribe_hit)
    then show ?thesis by (intro exI[of _ "[CreateChainCall op links]"]) simp
  qed
  from run keys entries later show ?thesis by blast
qed

theorem switchLink_eager_initialization_witness:
  "distinct (caseKeys \<lparr>select = (\<lambda>c :: (unit, unit) SwitchLinkSelectorContext.
                                     if sel_path c = ''single.get'' then ''single'' else ''array''),
                        cases = [(''single'', Link ''singleLink''),
                                 (''array'', Links [''arrayLink1'', ''arrayLink2''])]\<rparr>) \<and>
   switchLink_runtime (mock_collaborators :: (string, unit, string, unit, unit, string, unit) collaborators)
     \<lparr>select = (\<lambda>c. if sel_path c = ''single.get'' then ''single'' else ''array''),
      cases = [(''single'', Link ''singleLink''),
               (''array'', Links [''arrayLink1'', ''arrayLink2''])]\<rparr> () [] =
   Inr ([(''single'', [''singleLink'']), (''array'', [''arrayLink1'', ''arrayLink2''])],
        [LinkCall ''singleLink'' (), LinkCall ''arrayLink1'' (), LinkCall ''arrayLink2'' ()])"
proof -
  have d: "distinct (caseKeys \<lparr>select = (\<lambda>c :: (unit, unit) SwitchLinkSelectorContext.
                                     if sel_path c = ''single.get'' then ''single'' else ''array''),
                        cases = [(''single'', Link ''singleLink''),
                                 (''array'', Links [''arrayLink1'', ''arrayLink2''])]\<rparr>)"
    by (simp add: caseKeys_def)
  from switchLink_eager_initialization
         [OF d, of "mock_collaborators :: (string, unit, string, unit, unit, string, unit) collaborators"
            "()" "[]"]
  have "switchLink_runtime (mock_collaborators :: (string, unit, string, unit, unit, string, unit) collaborators)
     \<lparr>select = (\<lambda>c. if sel_path c = ''single.get'' then ''single'' else ''array''),
      cases = [(''single'', Link ''singleLink''),
               (''array'', Links [''arrayLink1'', ''arrayLink2''])]\<rparr> () [] =
   Inr ([(''single'', [''singleLink'']), (''array'', [''arrayLink1'', ''arrayLink2''])],
        [LinkCall ''singleLink'' (), LinkCall ''arrayLink1'' (), LinkCall ''arrayLink2'' ()])"
    by (elim exE conjE) (simp add: mock_collaborators_def)
  with d show ?thesis by blast
qed

text \<open>
  The unknown key of the test suite: the selector returns "unknown", the only case is
  "known". The observer receives the error and nothing else: the subscriber function
  calls \<^verbatim>\<open>observer.error\<close> and returns, and never calls \<^verbatim>\<open>observer.complete\<close>, so
  the stream does not complete after the error.
\<close>

theorem switchLink_unknown_key_counterexample:
  "switchLink_runtime
     (mock_collaborators :: (string, unit, string, unit, unit, string, unit) collaborators)
     \<lparr>select = (\<lambda>c. ''unknown''), cases = [(''known'', Link ''known'')]\<rparr> () [] =
     Inr ([(''known'', [''known''])], [LinkCall ''known'' ()]) \<and>
   fst (switchLink_subscribe
          (mock_collaborators :: (string, unit, string, unit, unit, string, unit) collaborators)
          \<lparr>select = (\<lambda>c. ''unknown''), cases = [(''known'', Link ''known'')]\<rparr>
          [(''known'', [''known''])] (createMockOp ''test.procedure'' ())
          [LinkCall ''known'' ()]) =
     [Error (TRPCClientError
        (''switchLink: selector returned unknown key '' @ dq @ ''unknown'' @ dq
         @ ''. Valid keys are: known''))] \<and>
   Complete \<notin> set (fst (switchLink_subscribe
          (mock_collaborators :: (string, unit, string, unit, unit, string, unit) collaborators)
          \<lparr>select = (\<lambda>c. ''unknown''), cases = [(''known'', Link ''known'')]\<rparr>
          [(''known'', [''known''])] (createMockOp ''test.procedure'' ())
          [LinkCall ''known'' ()]))"
  by (simp add: switchLink_runtime_def caseKeys_def switchLink_subscribe_def Map_get_def
      Map_keys_def mock_collaborators_def)

text \<open>
  Claim C1 (amended). For every operation whose selector output is a key absent from
  the cases mapping, the result stream of the Switch Router is exactly one error
  notification, which ends the stream: no value and no completion notification is
  emitted. The message of the error is
  \<^verbatim>\<open>switchLink: selector returned unknown key "<key>". Valid keys are: <keys>\<close>, so it
  contains the unknown key, the list of the case keys joined by a comma and a space,
  and every case key. The failure is a value on the stream of this call, not an
  exception, and the log of calls is unchanged.
\<close>

theorem switchLink_unknown_key:
  assumes "distinct (caseKeys opts)"
    and "switchLink_runtime env opts runtime log0 = Inr (cache, log1)"
    and "select opts \<lparr>sel_path = op_path op, sel_type = op_type op,
                       sel_ctx = op_context op, sel_op = op\<rparr> = selectedKey"
    and "selectedKey \<notin> set (caseKeys opts)"
  shows "\<exists>msg.
           switchLink_subscribe env opts cache op log = ([Error (TRPCClientError msg)], log) \<and>
           msg = ''switchLink: selector returned unknown key '' @ dq @ selectedKey @ dq
                 @ ''. Valid keys are: '' @ join '', '' (caseKeys opts) \<and>
           sublist selectedKey msg \<and>
           sublist (join '', '' (caseKeys opts)) msg \<and>
           (\<forall>key \<in> set (caseKeys opts). sublist key msg)"
proof -
  let ?msg = "''switchLink: selector returned unknown key '' @ dq @ selectedKey @ dq
                 @ ''. Valid keys are: '' @ join '', '' (caseKeys opts)"
  have keys: "Map_keys cache = caseKeys opts"
    using switchLink_runtime_cache(2) [OF assms(1,2)] .
  have miss: "Map_get (select opts \<lparr>sel_path = op_path op, sel_type = op_type op,
                       sel_ctx = op_context op, sel_op = op\<rparr>) cache = None"
    using assms(3,4) by (simp add: Map_get_None_iff keys)
  have stream: "switchLink_subscribe env opts cache op log = ([Error (TRPCClientError ?msg)], log)"
    using switchLink_subscribe_miss [OF miss, of env log] by (simp add: assms(3) keys)
  have "?msg = (''switchLink: selector returned unknown key '' @ dq) @ selectedKey
                 @ (dq @ ''. Valid keys are: '' @ join '', '' (caseKeys opts))"
    by simp
  then have has_key: "sublist selectedKey ?msg"
    unfolding sublist_def by blast
  have "?msg = (''switchLink: selector returned unknown key '' @ dq @ selectedKey @ dq
                 @ ''. Valid keys are: '') @ join '', '' (caseKeys opts) @ []"
    by simp
  then have has_keys: "sublist (join '', '' (caseKeys opts)) ?msg"
    unfolding sublist_def by blast
  have each: "\<forall>key \<in> set (caseKeys opts). sublist key ?msg"
    using has_keys sublist_join sublist_order.order_trans by blast
  from stream has_key has_keys each show ?thesis by blast
qed

theorem switchLink_unknown_key_witness:
  "distinct (caseKeys \<lparr>select = (\<lambda>c :: (unit, unit) SwitchLinkSelectorContext. ''unknown''),
                        cases = [(''known'', Link ''known'')]\<rparr>) \<and>
   ''unknown'' \<notin> set (caseKeys \<lparr>select = (\<lambda>c :: (unit, unit) SwitchLinkSelectorContext. ''unknown''),
                                  cases = [(''known'', Link ''known'')]\<rparr>) \<and>
   (\<exists>msg. switchLink_subscribe
            (mock_collaborators :: (string, unit, string, unit, unit, string, unit) collaborators)
            \<lparr>select = (\<lambda>c. ''unknown''), cases = [(''known'', Link ''known'')]\<rparr>
            [(''known'', [''known''])] (createMockOp ''test.procedure'' ()) [] =
            ([Error (TRPCClientError msg)], []) \<and>
          sublist ''unknown'' msg \<and> sublist ''known'' msg)"
proof -
  let ?opts = "\<lparr>select = (\<lambda>c :: (unit, unit) SwitchLinkSelectorContext. ''unknown''),
                cases = [(''known'', Link ''known'')]\<rparr>"
  let ?env = "mock_collaborators :: (string, unit, string, unit, unit, string, unit) collaborators"
  have d: "distinct (caseKeys ?opts)" by (simp add: caseKeys_def)
  have run: "switchLink_runtime ?env ?opts () [] =
               Inr ([(''known'', [''known''])], [LinkCall ''known'' ()])"
    by (simp add: switchLink_runtime_def caseKeys_def mock_collaborators_def)
  have sel: "select ?opts \<lparr>sel_path = op_path (createMockOp ''test.procedure'' ()),
                          sel_type = op_type (createMockOp ''test.procedure'' ()),
                          sel_ctx = op_context (createMockOp ''test.procedure'' ()),
                          sel_op = createMockOp ''test.procedure'' ()\<rparr> = ''unknown''"
    by simp
  have unknown: "''unknown'' \<notin> set (caseKeys ?opts)" by (simp add: caseKeys_def)
  have known: "''known'' \<in> set (caseKeys ?opts)" by (simp add: caseKeys_def)
  from switchLink_unknown_key [OF d run sel unknown, of "[]"] known
  have "\<exists>msg. switchLink_subscribe ?env ?opts [(''known'', [''known''])]
            (createMockOp ''test.procedure'' ()) [] = ([Error (TRPCClientError msg)], []) \<and>
          sublist ''unknown'' msg \<and> sublist ''known'' msg"
    by blast
  with d unknown show ?thesis by blast
qed

section \<open>The Endpoint Router: one step\<close>





lemma endpointRouterLink_failure:
  assumes "resolve_endpoint opts (routerName_of op) = None \<or>
           resolve_endpoint opts (routerName_of op) = Some (Str [])"
  shows "endpointRouterLink env opts runtime op st =
           ([Error (TRPCClientError (errorMessage_of opts (routerName_of op)))], st)"
  using assms by (auto simp: endpointRouterLink_def Let_def)







section \<open>The Endpoint Router: invariants of the cache\<close>
















section \<open>Routing errors of the Endpoint Router\<close>




section \<open>Routed operations\<close>




section \<open>Routing errors and the state of a router\<close>

text \<open>
  Claim C10. A routing error leaves the state of the router as it was. When the
  Switch Router misses, the log of calls is unchanged: no chain is executed and no
  link is initialised (its cache is fixed after initialisation and not written by any
  operation). When the Endpoint Router finds no endpoint, its cache and its log of
  calls are unchanged: no factory call, no link initialisation, no chain execution;
  so the operations after the failing one get the streams and leave the state they
  would without it.
\<close>

theorem routing_error_leaves_state:
  "(Map_get (select sopts \<lparr>sel_path = op_path op, sel_type = op_type op,
                           sel_ctx = op_context op, sel_op = op\<rparr>) cache = None \<longrightarrow>
      snd (switchLink_subscribe env sopts cache op log) = log) \<and>
   (resolve_endpoint opts (routerName_of op) = None \<or>
    resolve_endpoint opts (routerName_of op) = Some (Str []) \<longrightarrow>
      snd (endpointRouterLink env opts runtime op st) = st \<and>
      run_operations (endpointRouterLink env opts runtime) (op # ops) st =
        (fst (endpointRouterLink env opts runtime op st)
           # fst (run_operations (endpointRouterLink env opts runtime) ops st),
         snd (run_operations (endpointRouterLink env opts runtime) ops st)))"
proof -
  have switch: "Map_get (select sopts \<lparr>sel_path = op_path op, sel_type = op_type op,
                           sel_ctx = op_context op, sel_op = op\<rparr>) cache = None \<longrightarrow>
      snd (switchLink_subscribe env sopts cache op log) = log"
    by (simp add: switchLink_subscribe_miss)
  have endpoint: "resolve_endpoint opts (routerName_of op) = None \<or>
    resolve_endpoint opts (routerName_of op) = Some (Str []) \<longrightarrow>
      snd (endpointRouterLink env opts runtime op st) = st \<and>
      run_operations (endpointRouterLink env opts runtime) (op # ops) st =
        (fst (endpointRouterLink env opts runtime op st)
           # fst (run_operations (endpointRouterLink env opts runtime) ops st),
         snd (run_operations (endpointRouterLink env opts runtime) ops st))"
  proof
    assume "resolve_endpoint opts (routerName_of op) = None \<or>
      resolve_endpoint opts (routerName_of op) = Some (Str [])"
    then have same: "snd (endpointRouterLink env opts runtime op st) = st"
      by (simp add: endpointRouterLink_failure)
    have "run_operations (endpointRouterLink env opts runtime) (op # ops) st =
        (fst (endpointRouterLink env opts runtime op st)
           # fst (run_operations (endpointRouterLink env opts runtime) ops
                   (snd (endpointRouterLink env opts runtime op st))),
         snd (run_operations (endpointRouterLink env opts runtime) ops
                (snd (endpointRouterLink env opts runtime op st))))"
      by (simp add: case_prod_unfold Let_def)
    with same show "snd (endpointRouterLink env opts runtime op st) = st \<and>
      run_operations (endpointRouterLink env opts runtime) (op # ops) st =
        (fst (endpointRouterLink env opts runtime op st)
           # fst (run_operations (endpointRouterLink env opts runtime) ops st),
         snd (run_operations (endpointRouterLink env opts runtime) ops st))"
      by simp
  qed
  from switch endpoint show ?thesis by (rule conjI)
qed

theorem routing_error_leaves_state_witness:
  "Map_get (select \<lparr>select = (\<lambda>c :: (unit, unit) SwitchLinkSelectorContext. ''unknown''),
                     cases = [(''known'', Link ''known'')]\<rparr>
              \<lparr>sel_path = op_path (createMockOp ''test.procedure'' ()),
               sel_type = op_type (createMockOp ''test.procedure'' ()),
               sel_ctx = op_context (createMockOp ''test.procedure'' ()),
               sel_op = createMockOp ''test.procedure'' ()\<rparr>)
     [(''known'', [''known''])] = None \<and>
   snd (switchLink_subscribe
          (mock_collaborators :: (string, unit, string, unit, unit, string, unit) collaborators)
          \<lparr>select = (\<lambda>c. ''unknown''), cases = [(''known'', Link ''known'')]\<rparr>
          [(''known'', [''known''])] (createMockOp ''test.procedure'' ())
          [LinkCall ''known'' ()]) = [LinkCall ''known'' ()] \<and>
   resolve_endpoint
     \<lparr>routerToEndpoint = [(''users'', ''/api/users'')], defaultEndpoint = None, strict = None,
      linkFactory = (None :: (js_value \<Rightarrow> string LinkOrLinks) option),
      linkOptions = (None :: (string \<times> unit) list option)\<rparr>
     (routerName_of (createMockOp ''unknown.procedure'' ())) = None \<and>
   snd (endpointRouterLink
          (mock_collaborators :: (string, unit, string, unit, unit, string, unit) collaborators)
          \<lparr>routerToEndpoint = [(''users'', ''/api/users'')], defaultEndpoint = None,
           strict = None, linkFactory = None, linkOptions = None\<rparr> ()
          (createMockOp ''unknown.procedure'' ()) new_instance) = new_instance"
proof -
  let ?sopts = "\<lparr>select = (\<lambda>c :: (unit, unit) SwitchLinkSelectorContext. ''unknown''),
                 cases = [(''known'', Link ''known'')]\<rparr>"
  let ?opts = "\<lparr>routerToEndpoint = [(''users'', ''/api/users'')], defaultEndpoint = None,
      strict = None, linkFactory = (None :: (js_value \<Rightarrow> string LinkOrLinks) option),
      linkOptions = (None :: (string \<times> unit) list option)\<rparr>"
  let ?env = "mock_collaborators :: (string, unit, string, unit, unit, string, unit) collaborators"
  let ?op = "createMockOp ''test.procedure'' ()"
  let ?uop = "createMockOp ''unknown.procedure'' ()"
  note sw_inst = routing_error_leaves_state
      [where sopts = ?sopts and env = ?env and op = ?op and cache = "[(''known'', [''known''])]"
         and log = "[LinkCall ''known'' ()]"]
  note ep_inst = routing_error_leaves_state
      [where opts = ?opts and env = ?env and op = ?uop and runtime = "()" and st = new_instance]
  have miss: "Map_get (select ?sopts \<lparr>sel_path = op_path ?op, sel_type = op_type ?op,
                 sel_ctx = op_context ?op, sel_op = ?op\<rparr>) [(''known'', [''known''])] = None"
    by (simp add: Map_get_def)
  have unresolved: "resolve_endpoint ?opts (routerName_of ?uop) = None"
    by (simp add: routerName_of_def createMockOp_def resolve_endpoint_def property_read_def
        Object_prototype_keys_def)
  from miss sw_inst have switch:
    "snd (switchLink_subscribe ?env ?sopts [(''known'', [''known''])] ?op [LinkCall ''known'' ()]) =
       [LinkCall ''known'' ()]"
    by blast
  from unresolved ep_inst have endpoint:
    "snd (endpointRouterLink ?env ?opts () ?uop new_instance) = new_instance"
    by blast
  from miss switch unresolved endpoint show ?thesis by blast
qed

end
